theory Spec2Isabelle
  imports Main "HOL-Library.List_Lexorder" "HOL-Library.Char_ord"
begin

section \<open>Data model\<close>

text \<open>
  What \<^verbatim>\<open>getCardDetails\<close> and \<^verbatim>\<open>getSetDetails\<close> of \<^verbatim>\<open>@/data/mockData\<close> return, with
  the fields that the logic of \<^verbatim>\<open>CardDetails.tsx\<close> reads (the others are only displayed).
  They are declared first, so that \<open>name\<close> and \<open>owned\<close> without a qualifier are the
  fields of the database rows below.
\<close>

record mock_card =
  name :: string
  owned :: bool

record mock_set =
  name :: string

text \<open>The two lookups of \<^verbatim>\<open>@/data/mockData\<close>; a lookup that finds nothing is \<open>None\<close>.\<close>

record catalog =
  getCardDetails :: "string \<Rightarrow> string \<Rightarrow> mock_card option"
  getSetDetails :: "string \<Rightarrow> mock_set option"

text \<open>
  Row of the \<^verbatim>\<open>cards\<close> table (\<^verbatim>\<open>Database.public.Tables.cards.Row\<close> in
  \<^verbatim>\<open>integrations/supabase/types.ts\<close>). A nullable column is an \<open>option\<close>.
  The column \<^verbatim>\<open>id\<close> is the field \<open>id'\<close>, since \<open>id\<close> is the identity function
  of HOL, and the column \<^verbatim>\<open>type\<close> is the field \<open>type'\<close>.
\<close>

record card =
  artist :: "string option"
  hp :: "int option"
  id' :: string
  image_url :: string
  name :: string
  number :: string
  rarity :: string
  set_id :: string
  supertype :: "string option"
  type' :: string

text \<open>
  \<^verbatim>\<open>CardWithCollectionStatus\<close>: the object \<^verbatim>\<open>{ ...card, owned: b }\<close> is the record
  \<open>card\<close> extended by the field \<open>owned\<close>.
\<close>

record card_with_collection_status = card +
  owned :: bool

text \<open>
  What the remote procedure \<^verbatim>\<open>get_user_game_collection_safe\<close> returns is a list of
  \<^verbatim>\<open>{ card_id }\<close> objects; a row of the table \<^verbatim>\<open>game_collections\<close> has the column
  \<^verbatim>\<open>card_id\<close> and three more. The code reads \<^verbatim>\<open>item.card_id\<close> of both.
\<close>

record collection_item =
  card_id :: string

record game_collection_row = collection_item +
  collected_at :: string
  row_id :: string
  user_id :: string

text \<open>
  An awaited backend call either rejects (the \<^verbatim>\<open>await\<close> throws) or resolves to an
  object \<^verbatim>\<open>{ data, error }\<close>, where \<^verbatim>\<open>data\<close> may be \<^verbatim>\<open>null\<close> and \<^verbatim>\<open>error\<close> is
  \<^verbatim>\<open>null\<close> or an error object.
\<close>

datatype backend_error = BackendError string

datatype 'a reply = Rejects | Resolves "'a option" "backend_error option"

text \<open>
  The backend as the page sees it: one reply for each call the page makes; the reply to
  a query of the builder depends on the query. The three
  helpers of \<^verbatim>\<open>@/types/database\<close> and the client of \<^verbatim>\<open>@/integrations/supabase/client\<close>
  are outside the page, so their replies are parameters of the model.
\<close>

text \<open>
  A query of the client's builder, as the chain of \<^verbatim>\<open>from\<close>, \<^verbatim>\<open>select\<close>, \<^verbatim>\<open>order\<close> and
  \<^verbatim>\<open>limit\<close> calls describes it.
\<close>

record select_query =
  from_table :: string
  select_columns :: string
  order_column :: string
  limit_count :: nat

record backend =
  from_select :: "select_query \<Rightarrow> card list reply"
  getUserGameCollection :: "string \<Rightarrow> game_collection_row list reply"
  rpc_get_user_game_collection_safe :: "string \<Rightarrow> collection_item list reply"
  getGameCollectionCount :: "string \<Rightarrow> int reply"
  rpc_get_game_collection_count_safe :: "string \<Rightarrow> int reply"
  addCardToGameCollection :: "string \<Rightarrow> string \<Rightarrow> unit reply"
  rpc_add_card_to_game_collection_safe :: "string \<Rightarrow> string \<Rightarrow> unit reply"

text \<open>What a handler does besides updating the state of the page, in the order it does it.\<close>

datatype request =
    Select select_query
  | GetUserGameCollection string
  | RpcGetUserGameCollectionSafe string
  | GetGameCollectionCount string
  | RpcGetGameCollectionCountSafe string
  | AddCardToGameCollection string string
  | RpcAddCardToGameCollectionSafe string string

datatype effect =
    Request request
  | ConsoleError string
  | ToastError string
  | ToastSuccess string
  | ToastInfo string

text \<open>
  The \<^verbatim>\<open>useState\<close> cells. Both pages hold \<^verbatim>\<open>isLoggedIn\<close>, \<^verbatim>\<open>showAuthModal\<close> and
  \<^verbatim>\<open>username\<close>; \<^verbatim>\<open>BoosterGame\<close> adds the pack and the count, \<^verbatim>\<open>CardDetails\<close> adds
  \<^verbatim>\<open>isOwned\<close>.
\<close>

record auth_state =
  isLoggedIn :: bool
  showAuthModal :: bool
  username :: string

record booster_state = auth_state +
  boosterCards :: "card_with_collection_status list"
  isOpened :: bool
  isLoading :: bool
  gameCollectionCount :: int

record details_state = auth_state +
  isOwned :: bool

text \<open>What a page renders: an inline \<^verbatim>\<open><div>\<close> with a message, or the full page.\<close>

datatype view = Div string | Page mock_card mock_set bool

section \<open>BoosterGame.tsx\<close>

text \<open>
  \<^verbatim>\<open>fetchGameCollectionCount\<close>, lines 54-87. The fallback is in the \<^verbatim>\<open>catch\<close> block, so
  it runs when the helper rejects, not when it resolves with an error.
  \<^verbatim>\<open>count || 0\<close> is 0 for \<^verbatim>\<open>null\<close> and for 0.
\<close>

definition fetchGameCollectionCount ::
  "backend \<Rightarrow> string \<Rightarrow> booster_state \<Rightarrow> booster_state \<times> effect list" where
  "fetchGameCollectionCount be userId s =
     (case getGameCollectionCount be userId of
        Resolves count error \<Rightarrow>
          (case error of
             Some e \<Rightarrow>
               (s, [Request (GetGameCollectionCount userId),
                    ConsoleError ''Error fetching game collection count:''])
           | None \<Rightarrow>
               (s\<lparr>gameCollectionCount := (case count of Some c \<Rightarrow> (if c = 0 then 0 else c) | None \<Rightarrow> 0)\<rparr>,
                [Request (GetGameCollectionCount userId)]))
      | Rejects \<Rightarrow>
          (case rpc_get_game_collection_count_safe be userId of
             Resolves data error \<Rightarrow>
               (case error of
                  Some e \<Rightarrow>
                    (s, [Request (GetGameCollectionCount userId),
                         ConsoleError ''Error in fetchGameCollectionCount:'',
                         Request (RpcGetGameCollectionCountSafe userId),
                         ConsoleError ''RPC error:''])
                | None \<Rightarrow>
                    ((case data of Some d \<Rightarrow> s\<lparr>gameCollectionCount := d\<rparr> | None \<Rightarrow> s),
                     [Request (GetGameCollectionCount userId),
                      ConsoleError ''Error in fetchGameCollectionCount:'',
                      Request (RpcGetGameCollectionCountSafe userId)]))
           | Rejects \<Rightarrow>
               (s, [Request (GetGameCollectionCount userId),
                    ConsoleError ''Error in fetchGameCollectionCount:'',
                    Request (RpcGetGameCollectionCountSafe userId),
                    ConsoleError ''Fallback error:''])))"

text \<open>
  The query that \<^verbatim>\<open>openBoosterPack\<close> builds, lines 111-115:
  \<^verbatim>\<open>supabase.from('cards').select('*').order('id').limit(5)\<close>.
\<close>

definition cards_query :: select_query where
  "cards_query =
     \<lparr>from_table = ''cards'', select_columns = ''*'', order_column = ''id'', limit_count = 5\<rparr>"

text \<open>
  The database is not part of the page. What it does with a query of the builder on the
  table \<^verbatim>\<open>cards\<close> is the SQL of the query: the rows in ascending order of the
  \<^verbatim>\<open>order\<close> column, cut after \<^verbatim>\<open>limit\<close> rows. The order of two texts is the one of
  the column's collation, which the sources do not fix: it is the parameter \<open>collate\<close>,
  a key into any linear order. The columns that can be the \<^verbatim>\<open>order\<close> column here
  are the text columns of \<^verbatim>\<open>cards\<close> that are never \<^verbatim>\<open>null\<close>; a query on another
  table or column is outside this model and is answered with an error.
\<close>

definition text_column :: "string \<Rightarrow> (card \<Rightarrow> string) option" where
  "text_column c =
     (if c = ''id'' then Some id'
      else if c = ''image_url'' then Some image_url
      else if c = ''name'' then Some name
      else if c = ''number'' then Some number
      else if c = ''rarity'' then Some rarity
      else if c = ''set_id'' then Some set_id
      else if c = ''type'' then Some type'
      else None)"

definition select_rows ::
  "(string \<Rightarrow> 'k::linorder) \<Rightarrow> card list \<Rightarrow> select_query \<Rightarrow> card list reply" where
  "select_rows collate cards_table q =
     (case text_column (order_column q) of
        Some column \<Rightarrow>
          (if from_table q = ''cards'' \<and> select_columns q = ''*''
           then Resolves (Some (take (limit_count q) (sort_key (collate \<circ> column) cards_table))) None
           else Resolves None (Some (BackendError ''outside the model'')))
      | None \<Rightarrow> Resolves None (Some (BackendError ''outside the model'')))"

text \<open>
  \<^verbatim>\<open>randomCards.map(card => ({ ...card, owned: ownedCardIds.includes(card.id) }))\<close>,
  lines 147-150 and 158-161.
\<close>

definition with_status :: "string list \<Rightarrow> card list \<Rightarrow> card_with_collection_status list" where
  "with_status ownedCardIds randomCards =
     map (\<lambda>c. card.extend c (card_with_collection_status.fields (id' c \<in> set ownedCardIds)))
       randomCards"

text \<open>\<^verbatim>\<open>randomCards.map(card => ({ ...card, owned: false }))\<close>, lines 133-136.\<close>

definition not_owned :: "card list \<Rightarrow> card_with_collection_status list" where
  "not_owned randomCards =
     map (\<lambda>c. card.extend c (card_with_collection_status.fields False)) randomCards"

text \<open>The \<^verbatim>\<open>catch\<close> block of \<^verbatim>\<open>openBoosterPack\<close>, lines 167-169.\<close>

definition openBoosterPack_catch :: "effect list" where
  "openBoosterPack_catch =
     [ConsoleError ''Error opening booster pack:'', ToastError ''Failed to open booster pack'']"

text \<open>
  The part of \<^verbatim>\<open>openBoosterPack\<close> after the cards have arrived, lines 120-166: the
  collection-status merger. It runs inside the \<^verbatim>\<open>try\<close>, so a rejected call ends in
  the \<^verbatim>\<open>catch\<close> block and leaves the pack as it was.
\<close>

definition merge_collection_status ::
  "backend \<Rightarrow> card list \<Rightarrow> booster_state \<Rightarrow> booster_state \<times> effect list" where
  "merge_collection_status be randomCards s =
     (case getUserGameCollection be (username s) of
        Rejects \<Rightarrow> (s, Request (GetUserGameCollection (username s)) # openBoosterPack_catch)
      | Resolves gameCollection collectionError \<Rightarrow>
          (case (collectionError, gameCollection) of
             (None, Some rows) \<Rightarrow>
               (s\<lparr>boosterCards := with_status (map card_id rows) randomCards, isOpened := True\<rparr>,
                [Request (GetUserGameCollection (username s))])
           | _ \<Rightarrow>
               (case rpc_get_user_game_collection_safe be (username s) of
                  Rejects \<Rightarrow>
                    (s, [Request (GetUserGameCollection (username s)),
                         ConsoleError ''Error fetching game collection:'',
                         Request (RpcGetUserGameCollectionSafe (username s))]
                        @ openBoosterPack_catch)
                | Resolves rpcData rpcError \<Rightarrow>
                    (case rpcError of
                       Some e \<Rightarrow>
                         (s\<lparr>boosterCards := not_owned randomCards, isOpened := True\<rparr>,
                          [Request (GetUserGameCollection (username s)),
                           ConsoleError ''Error fetching game collection:'',
                           Request (RpcGetUserGameCollectionSafe (username s)),
                           ConsoleError ''RPC error:''])
                     | None \<Rightarrow>
                         (s\<lparr>boosterCards :=
                              with_status (case rpcData of Some items \<Rightarrow> map card_id items | None \<Rightarrow> [])
                                randomCards,
                            isOpened := True\<rparr>,
                          [Request (GetUserGameCollection (username s)),
                           ConsoleError ''Error fetching game collection:'',
                           Request (RpcGetUserGameCollectionSafe (username s))])))))"

text \<open>
  \<^verbatim>\<open>openBoosterPack\<close>, lines 102-173. The \<^verbatim>\<open>finally\<close> block clears \<^verbatim>\<open>isLoading\<close> on
  every path that passed the login check.
\<close>

definition openBoosterPack :: "backend \<Rightarrow> booster_state \<Rightarrow> booster_state \<times> effect list" where
  "openBoosterPack be s =
     (if \<not> isLoggedIn s then (s\<lparr>showAuthModal := True\<rparr>, [])
      else
        let (s', fx) =
          (case from_select be cards_query of
             Rejects \<Rightarrow> (s\<lparr>isLoading := True\<rparr>, openBoosterPack_catch)
           | Resolves randomCards error \<Rightarrow>
               (case (error, randomCards) of
                  (None, Some cards) \<Rightarrow> merge_collection_status be cards (s\<lparr>isLoading := True\<rparr>)
                | _ \<Rightarrow> (s\<lparr>isLoading := True\<rparr>, openBoosterPack_catch)))
        in (s'\<lparr>isLoading := False\<rparr>, Request (Select cards_query) # fx))"

text \<open>The successful end of \<^verbatim>\<open>addToGameCollection\<close>, lines 199-209.\<close>

definition addToGameCollection_update :: "string \<Rightarrow> booster_state \<Rightarrow> booster_state" where
  "addToGameCollection_update cardId s =
     s\<lparr>boosterCards := map (\<lambda>c. if id' c = cardId then c\<lparr>owned := True\<rparr> else c) (boosterCards s),
       gameCollectionCount := gameCollectionCount s + 1\<rparr>"

text \<open>\<^verbatim>\<open>addToGameCollection\<close>, lines 175-214.\<close>

definition addToGameCollection ::
  "backend \<Rightarrow> string \<Rightarrow> booster_state \<Rightarrow> booster_state \<times> effect list" where
  "addToGameCollection be cardId s =
     (if \<not> isLoggedIn s then (s\<lparr>showAuthModal := True\<rparr>, [])
      else
        (case addCardToGameCollection be (username s) cardId of
           Rejects \<Rightarrow>
             (s, [Request (AddCardToGameCollection (username s) cardId),
                  ConsoleError ''Error adding card to collection:'',
                  ToastError ''Failed to add card to collection''])
         | Resolves d error \<Rightarrow>
             (case error of
                None \<Rightarrow>
                  (addToGameCollection_update cardId s,
                   [Request (AddCardToGameCollection (username s) cardId),
                    ToastSuccess ''Card added to your game collection!''])
              | Some e \<Rightarrow>
                  (case rpc_add_card_to_game_collection_safe be (username s) cardId of
                     Rejects \<Rightarrow>
                       (s, [Request (AddCardToGameCollection (username s) cardId),
                            Request (RpcAddCardToGameCollectionSafe (username s) cardId),
                            ConsoleError ''Error adding card to collection:'',
                            ToastError ''Failed to add card to collection''])
                   | Resolves d' rpcError \<Rightarrow>
                       (case rpcError of
                          Some e' \<Rightarrow>
                            (s, [Request (AddCardToGameCollection (username s) cardId),
                                 Request (RpcAddCardToGameCollectionSafe (username s) cardId),
                                 ConsoleError ''RPC error:'',
                                 ToastError ''Failed to add card to collection''])
                        | None \<Rightarrow>
                            (addToGameCollection_update cardId s,
                             [Request (AddCardToGameCollection (username s) cardId),
                              Request (RpcAddCardToGameCollectionSafe (username s) cardId),
                              ToastSuccess ''Card added to your game collection!'']))))))"

section \<open>CardDetails.tsx\<close>

text \<open>
  The component up to its \<^verbatim>\<open>useState(cardDetails.owned)\<close>, lines 21-38. A route
  parameter is \<^verbatim>\<open>undefined\<close> (\<open>None\<close>) or a string, and \<^verbatim>\<open>!setId\<close> holds for
  \<^verbatim>\<open>undefined\<close> and for the empty string. The full page starts with \<^verbatim>\<open>isOwned\<close> at
  \<^verbatim>\<open>cardDetails.owned\<close>.
\<close>

definition CardDetails :: "catalog \<Rightarrow> string option \<Rightarrow> string option \<Rightarrow> view" where
  "CardDetails cat setId cardId =
     (case (setId, cardId) of
        (Some sid, Some cid) \<Rightarrow>
          (if sid = [] \<or> cid = [] then Div ''Set ID and Card ID are required''
           else
             (case (getCardDetails cat sid cid, getSetDetails cat sid) of
                (Some cardDetails, Some setDetails) \<Rightarrow>
                  Page cardDetails setDetails (mock_card.owned cardDetails)
              | _ \<Rightarrow> Div ''Card not found''))
      | _ \<Rightarrow> Div ''Set ID and Card ID are required'')"

text \<open>\<^verbatim>\<open>handleToggleOwned\<close>, lines 51-59.\<close>

definition handleToggleOwned :: "mock_card \<Rightarrow> details_state \<Rightarrow> details_state \<times> effect list" where
  "handleToggleOwned cardDetails s =
     (s\<lparr>isOwned := \<not> isOwned s\<rparr>,
      [if \<not> isOwned s
       then ToastSuccess (''Added '' @ mock_card.name cardDetails @ '' to your collection!'')
       else ToastInfo (''Removed '' @ mock_card.name cardDetails @ '' from your collection'')])"

section \<open>Vocabulary of the properties\<close>

text \<open>
  A call succeeded when it resolved and its \<^verbatim>\<open>error\<close> is \<^verbatim>\<open>null\<close>: the test
  \<^verbatim>\<open>if (error)\<close> of the handlers. Everything else is a failure: an error reply or a
  rejected promise.
\<close>

definition resolves_without_error :: "'a reply \<Rightarrow> bool" where
  "resolves_without_error r = (case r of Resolves d None \<Rightarrow> True | _ \<Rightarrow> False)"

text \<open>The notifications a user sees, and the calls that reach the backend.\<close>

definition is_toast :: "effect \<Rightarrow> bool" where
  "is_toast e =
     (case e of ToastError m \<Rightarrow> True | ToastSuccess m \<Rightarrow> True | ToastInfo m \<Rightarrow> True
      | _ \<Rightarrow> False)"

definition is_request :: "effect \<Rightarrow> bool" where
  "is_request e = (case e of Request r \<Rightarrow> True | _ \<Rightarrow> False)"

text \<open>
  The data of the scenarios: a card with a given id, a row of \<^verbatim>\<open>game_collections\<close>, the
  page of the logged-in user \<^verbatim>\<open>u1\<close> before any pack is opened, and a backend that rejects
  every call, to be updated with the replies a scenario needs.
\<close>

definition scenario_card :: "string \<Rightarrow> card" where
  "scenario_card i =
     \<lparr>artist = None, hp = None, id' = i, image_url = [], name = i, number = [],
      rarity = ''Common'', set_id = ''base1'', supertype = None, type' = ''Fire''\<rparr>"

definition scenario_row :: "string \<Rightarrow> string \<Rightarrow> game_collection_row" where
  "scenario_row u i = \<lparr>card_id = i, collected_at = [], row_id = [], user_id = u\<rparr>"

definition scenario_state :: booster_state where
  "scenario_state =
     \<lparr>isLoggedIn = True, showAuthModal = False, username = ''u1'', boosterCards = [],
      isOpened = False, isLoading = False, gameCollectionCount = 0\<rparr>"

definition offline :: backend where
  "offline =
     \<lparr>from_select = (\<lambda>q. Rejects),
      getUserGameCollection = (\<lambda>u. Rejects),
      rpc_get_user_game_collection_safe = (\<lambda>u. Rejects),
      getGameCollectionCount = (\<lambda>u. Rejects),
      rpc_get_game_collection_count_safe = (\<lambda>u. Rejects),
      addCardToGameCollection = (\<lambda>u c. Rejects),
      rpc_add_card_to_game_collection_safe = (\<lambda>u c. Rejects)\<rparr>"

text \<open>The three candidate cards, and the backend where \<^verbatim>\<open>u1\<close> owns \<^verbatim>\<open>c1\<close> and \<^verbatim>\<open>c3\<close>.\<close>

definition scenario_cards :: "card list" where
  "scenario_cards = [scenario_card ''c1'', scenario_card ''c2'', scenario_card ''c3'']"

definition scenario_backend :: backend where
  "scenario_backend =
     offline\<lparr>from_select := (\<lambda>q. Resolves (Some scenario_cards) None),
             getUserGameCollection :=
               (\<lambda>u. Resolves (Some [scenario_row u ''c1'', scenario_row u ''c3'']) None)\<rparr>"

text \<open>The same data when the table query is refused and the remote procedure answers.\<close>

definition scenario_backend_fallback :: backend where
  "scenario_backend_fallback =
     offline\<lparr>from_select := (\<lambda>q. Resolves (Some scenario_cards) None),
             getUserGameCollection := (\<lambda>u. Resolves None (Some (BackendError ''permission denied''))),
             rpc_get_user_game_collection_safe :=
               (\<lambda>u. Resolves (Some [\<lparr>card_id = ''c3''\<rparr>, \<lparr>card_id = ''c1''\<rparr>]) None)\<rparr>"

text \<open>The same cards when the table query and the remote procedure are both refused.\<close>

definition scenario_backend_down :: backend where
  "scenario_backend_down =
     offline\<lparr>from_select := (\<lambda>q. Resolves (Some scenario_cards) None),
             getUserGameCollection := (\<lambda>u. Resolves None (Some (BackendError ''permission denied''))),
             rpc_get_user_game_collection_safe :=
               (\<lambda>u. Resolves None (Some (BackendError ''function not found'')))\<rparr>"

text \<open>A backend that refuses the insert and the remote procedure that stands in for it.\<close>

definition scenario_backend_no_insert :: backend where
  "scenario_backend_no_insert =
     offline\<lparr>addCardToGameCollection := (\<lambda>u c. Resolves None (Some (BackendError ''insert''))),
             rpc_add_card_to_game_collection_safe :=
               (\<lambda>u c. Resolves None (Some (BackendError ''rpc'')))\<rparr>"

text \<open>
  The page of \<^verbatim>\<open>u1\<close> with an opened pack that shows \<^verbatim>\<open>c1\<close> as not owned and a count
  of 0; the same page with \<^verbatim>\<open>c1\<close> owned and a count of 1; a backend that accepts the
  insert, and one that refuses the insert and accepts the remote procedure.
\<close>

definition scenario_state_c1_dealt :: booster_state where
  "scenario_state_c1_dealt =
     scenario_state\<lparr>boosterCards := with_status [] [scenario_card ''c1''], isOpened := True\<rparr>"

definition scenario_state_c1_owned :: booster_state where
  "scenario_state_c1_owned =
     scenario_state\<lparr>boosterCards := with_status [''c1''] [scenario_card ''c1''],
                    isOpened := True, gameCollectionCount := 1\<rparr>"

definition scenario_backend_insert_ok :: backend where
  "scenario_backend_insert_ok = offline\<lparr>addCardToGameCollection := (\<lambda>u c. Resolves None None)\<rparr>"

definition scenario_backend_rpc_ok :: backend where
  "scenario_backend_rpc_ok =
     offline\<lparr>addCardToGameCollection := (\<lambda>u c. Resolves None (Some (BackendError ''duplicate key''))),
             rpc_add_card_to_game_collection_safe := (\<lambda>u c. Resolves None None)\<rparr>"

text \<open>
  A table of six cards in no order, the same rows stored in another order, and the two
  databases that hold them and compare ids by code points. On the second, user
  \<^verbatim>\<open>u2\<close> owns \<^verbatim>\<open>c2\<close>.
\<close>

definition scenario_table :: "card list" where
  "scenario_table = map scenario_card [''c3'', ''c1'', ''c6'', ''c2'', ''c5'', ''c4'']"

definition scenario_table_reordered :: "card list" where
  "scenario_table_reordered = map scenario_card [''c6'', ''c5'', ''c4'', ''c3'', ''c2'', ''c1'']"

definition code_points :: "string \<Rightarrow> string" where
  "code_points i = i"

definition scenario_backend_table :: backend where
  "scenario_backend_table =
     offline\<lparr>from_select := select_rows code_points scenario_table,
             getUserGameCollection := (\<lambda>u. Resolves (Some []) None)\<rparr>"

definition scenario_backend_table_reordered :: backend where
  "scenario_backend_table_reordered =
     offline\<lparr>from_select := select_rows code_points scenario_table_reordered,
             getUserGameCollection := (\<lambda>u. Resolves (Some [scenario_row u ''c2'']) None)\<rparr>"

text \<open>
  The backend where the table query is refused and the remote procedure rejects.
\<close>

definition scenario_backend_rpc_rejects :: backend where
  "scenario_backend_rpc_rejects =
     offline\<lparr>from_select := (\<lambda>q. Resolves (Some scenario_cards) None),
             getUserGameCollection := (\<lambda>u. Resolves None (Some (BackendError ''permission denied'')))\<rparr>"

text \<open>A catalog without any record.\<close>

definition empty_catalog :: catalog where
  "empty_catalog = \<lparr>getCardDetails = (\<lambda>s c. None), getSetDetails = (\<lambda>s. None)\<rparr>"

section \<open>Properties\<close>

subsection \<open>The annotated list\<close>

lemma truncate_with_status: "map card.truncate (with_status ids cs) = cs"
  by (induction cs)
    (simp_all add: with_status_def card.truncate_def card.extend_def
      card_with_collection_status.fields_def)

lemma owned_with_status: "map owned (with_status ids cs) = map (\<lambda>c. id' c \<in> set ids) cs"
  by (induction cs)
    (simp_all add: with_status_def card.extend_def card_with_collection_status.fields_def)

lemma truncate_not_owned: "map card.truncate (not_owned cs) = cs"
  by (induction cs)
    (simp_all add: not_owned_def card.truncate_def card.extend_def
      card_with_collection_status.fields_def)

lemma owned_not_owned: "map owned (not_owned cs) = map (\<lambda>c. False) cs"
  by (induction cs)
    (simp_all add: not_owned_def card.extend_def card_with_collection_status.fields_def)

lemma with_status_cong: "set ids = set ids' \<Longrightarrow> with_status ids cs = with_status ids' cs"
  by (simp add: with_status_def)

subsection \<open>The cards query\<close>

text \<open>What the database answers to the query of \<open>openBoosterPack\<close>.\<close>

lemma select_rows_cards_query:
  "select_rows collate tbl cards_query =
     Resolves (Some (take 5 (sort_key (collate \<circ> id') tbl))) None"
  by (simp add: select_rows_def cards_query_def text_column_def)

text \<open>
  Rows with distinct keys have one sorted order, in whatever order they are stored.
\<close>

lemma sort_key_unique:
  assumes "set xs = set ys" and "distinct (map f xs)" and "distinct (map f ys)"
  shows "sort_key f xs = sort_key f ys"
proof -
  let ?a = "sort_key f xs" and ?b = "sort_key f ys"
  have inj: "inj_on f (set xs)" and dx: "distinct xs" and dy: "distinct ys"
    using assms(2,3) by (simp_all add: distinct_map)
  have "distinct (map f ?a)" and "distinct (map f ?b)"
    using inj dx dy assms(1) by (simp_all add: distinct_map)
  moreover have "sorted (map f ?a)" and "sorted (map f ?b)"
    by simp_all
  moreover have "set (map f ?a) = set (map f ?b)"
    using assms(1) by simp
  ultimately have "map f ?a = map f ?b"
    by (metis sorted_distinct_set_unique)
  moreover have "inj_on f (set ?a \<union> set ?b)"
    using inj assms(1) by simp
  ultimately show ?thesis
    by (simp add: inj_on_map_eq_map)
qed

lemma distinct_collated:
  assumes "inj collate" and "distinct (map id' tbl)"
  shows "distinct (map (collate \<circ> id') tbl)"
proof -
  have "inj_on collate (set (map id' tbl))"
    using assms(1) by (auto simp: inj_on_def)
  with assms(2) have "distinct (map collate (map id' tbl))"
    by (simp only: distinct_map)
  then show ?thesis
    by (simp only: map_map)
qed

lemma first_rows_sorted: "sorted (map f (take n (sort_key f tbl)))"
  by (simp add: take_map [symmetric])

lemma first_rows_subset: "set (take n (sort_key f tbl)) \<subseteq> set tbl"
  using set_take_subset [of n "sort_key f tbl"] by simp

text \<open>A row that is cut off has a key no smaller than any row that is kept.\<close>

lemma first_rows_least:
  assumes "r \<in> set (take n (sort_key f tbl))" and "c \<in> set tbl"
    and "c \<notin> set (take n (sort_key f tbl))"
  shows "f r \<le> f c"
proof -
  let ?xs = "sort_key f tbl"
  have "sorted (map f (take n ?xs @ drop n ?xs))"
    by simp
  then have le: "\<forall>x \<in> set (take n ?xs). \<forall>y \<in> set (drop n ?xs). f x \<le> f y"
    unfolding map_append sorted_append by auto
  have "c \<in> set (take n ?xs @ drop n ?xs)"
    using assms(2) by simp
  then have "c \<in> set (drop n ?xs)"
    using assms(3) unfolding set_append by blast
  with le assms(1) show ?thesis
    by simp
qed

lemma scenario_table_selected:
  "take 5 (sort_key (code_points \<circ> id') scenario_table) =
     map scenario_card [''c1'', ''c2'', ''c3'', ''c4'', ''c5'']"
  by (simp add: scenario_table_def scenario_card_def code_points_def)

text \<open>A pack that was closed and is open after \<open>openBoosterPack\<close> shows the cards of the reply.\<close>

lemma opened_pack_cards:
  assumes "\<not> isOpened s"
    and "from_select be cards_query = Resolves (Some cards) None"
    and "isOpened (fst (openBoosterPack be s))"
  shows "map card.truncate (boosterCards (fst (openBoosterPack be s))) = cards"
  using assms
  by (auto simp: openBoosterPack_def merge_collection_status_def openBoosterPack_catch_def
      truncate_with_status truncate_not_owned
      split: if_splits reply.splits option.splits)

subsection \<open>The claims\<close>

text \<open>
  C1 (the displayed count on a repeated add). The pack shows \<^verbatim>\<open>c1\<close> as not owned and
  the count is 0. A first successful \<open>addToGameCollection\<close> of \<^verbatim>\<open>c1\<close> sets its
  owned flag and makes the count 1. The card is then added again and the backend
  accepts the call, through the insert or, when the insert is refused, through the
  remote procedure. The owned flags stay as they were, and the count becomes 2: line 207
  increments on every successful call, whether or not the card was owned before.
\<close>

theorem re_add_increments_displayed_count:
  "map owned (boosterCards scenario_state_c1_dealt) = [False] \<and>
   gameCollectionCount scenario_state_c1_dealt = 0 \<and>
   fst (addToGameCollection scenario_backend_insert_ok ''c1'' scenario_state_c1_dealt) =
     scenario_state_c1_owned \<and>
   map owned (boosterCards scenario_state_c1_owned) = [True] \<and>
   gameCollectionCount scenario_state_c1_owned = 1 \<and>
   map owned (boosterCards
     (fst (addToGameCollection scenario_backend_insert_ok ''c1'' scenario_state_c1_owned))) = [True] \<and>
   gameCollectionCount
     (fst (addToGameCollection scenario_backend_insert_ok ''c1'' scenario_state_c1_owned)) = 2 \<and>
   map owned (boosterCards
     (fst (addToGameCollection scenario_backend_rpc_ok ''c1'' scenario_state_c1_owned))) = [True] \<and>
   gameCollectionCount
     (fst (addToGameCollection scenario_backend_rpc_ok ''c1'' scenario_state_c1_owned)) = 2"
  by (simp add: addToGameCollection_def addToGameCollection_update_def
      scenario_state_c1_dealt_def scenario_state_c1_owned_def scenario_state_def
      scenario_backend_insert_ok_def scenario_backend_rpc_ok_def offline_def with_status_def
      scenario_card_def card.extend_def card_with_collection_status.fields_def)

text \<open>
  C2 (fail-open), for calls that resolve. The user is logged in and the cards have
  arrived. When the game collection query resolves with an error or without data, and
  the remote procedure resolves with an error, \<open>openBoosterPack\<close> shows the pack: the
  cards are the ones that arrived, in their order and with their fields, every one with
  \<open>owned = False\<close>; the pack is open, the loading flag is cleared, and no notification
  is shown.
\<close>

theorem fail_open_when_both_fail:
  assumes "isLoggedIn s"
    and "from_select be cards_query = Resolves (Some randomCards) None"
    and "getUserGameCollection be (username s) = Resolves gameCollection collectionError"
    and "collectionError \<noteq> None \<or> gameCollection = None"
    and "rpc_get_user_game_collection_safe be (username s) = Resolves rpcData (Some rpcError)"
  shows "map card.truncate (boosterCards (fst (openBoosterPack be s))) = randomCards \<and>
         map owned (boosterCards (fst (openBoosterPack be s))) = map (\<lambda>c. False) randomCards \<and>
         isOpened (fst (openBoosterPack be s)) \<and>
         \<not> isLoading (fst (openBoosterPack be s)) \<and>
         filter is_toast (snd (openBoosterPack be s)) = []"
proof -
  have "openBoosterPack be s =
          (s\<lparr>boosterCards := not_owned randomCards, isOpened := True, isLoading := False\<rparr>,
           [Request (Select cards_query), Request (GetUserGameCollection (username s)),
            ConsoleError ''Error fetching game collection:'',
            Request (RpcGetUserGameCollectionSafe (username s)),
            ConsoleError ''RPC error:''])"
    using assms
    by (auto simp: openBoosterPack_def merge_collection_status_def split: option.splits)
  then show ?thesis
    by (simp add: truncate_not_owned owned_not_owned is_toast_def)
qed

theorem fail_open_when_both_fail_witness:
  "isLoggedIn scenario_state \<and>
   map card.truncate (boosterCards (fst (openBoosterPack scenario_backend_down scenario_state))) =
     scenario_cards \<and>
   map owned (boosterCards (fst (openBoosterPack scenario_backend_down scenario_state))) =
     [False, False, False] \<and>
   isOpened (fst (openBoosterPack scenario_backend_down scenario_state)) \<and>
   filter is_toast (snd (openBoosterPack scenario_backend_down scenario_state)) = []"
proof -
  have l: "isLoggedIn scenario_state"
    by (simp add: scenario_state_def)
  have c: "from_select scenario_backend_down cards_query =
             Resolves (Some scenario_cards) None"
    by (simp add: scenario_backend_down_def)
  have g: "getUserGameCollection scenario_backend_down (username scenario_state) =
             Resolves None (Some (BackendError ''permission denied''))"
    by (simp add: scenario_backend_down_def)
  have n: "Some (BackendError ''permission denied'') \<noteq> None \<or>
           (None :: game_collection_row list option) = None"
    by simp
  have r: "rpc_get_user_game_collection_safe scenario_backend_down (username scenario_state) =
             Resolves None (Some (BackendError ''function not found''))"
    by (simp add: scenario_backend_down_def)
  show ?thesis
    using l fail_open_when_both_fail [OF l c g n r]
    by (simp add: scenario_cards_def)
qed

text \<open>
  C2, for a call that rejects. The game collection query resolves with an error and the
  remote procedure rejects, so both have failed. The \<^verbatim>\<open>catch\<close> block of lines 167-169
  takes over: the pack stays closed and empty, and the failure notification is shown.
\<close>

theorem fail_open_rejected_call_counterexample:
  "isLoggedIn scenario_state \<and>
   from_select scenario_backend_rpc_rejects cards_query = Resolves (Some scenario_cards) None \<and>
   \<not> resolves_without_error
       (getUserGameCollection scenario_backend_rpc_rejects (username scenario_state)) \<and>
   \<not> resolves_without_error
       (rpc_get_user_game_collection_safe scenario_backend_rpc_rejects (username scenario_state)) \<and>
   \<not> isOpened (fst (openBoosterPack scenario_backend_rpc_rejects scenario_state)) \<and>
   boosterCards (fst (openBoosterPack scenario_backend_rpc_rejects scenario_state)) = [] \<and>
   filter is_toast (snd (openBoosterPack scenario_backend_rpc_rejects scenario_state)) =
     [ToastError ''Failed to open booster pack'']"
  by (simp add: openBoosterPack_def merge_collection_status_def openBoosterPack_catch_def
      scenario_backend_rpc_rejects_def scenario_state_def offline_def
      resolves_without_error_def is_toast_def)


text \<open>
  C3 (the fallback gives what the table query gives). Two backends answer the cards
  query alike. On the first the game collection query returns the rows \<open>rows\<close>. On the
  second it fails (an error, or no data) and the remote procedure returns \<open>items\<close>, with
  the same set of card ids as \<open>rows\<close>. Then \<open>openBoosterPack\<close> leaves the page in the
  same state on both: the same annotated cards, the pack open, the loading flag cleared.
\<close>

theorem fallback_same_as_primary:
  assumes "from_select be2 cards_query = from_select be1 cards_query"
    and "getUserGameCollection be1 (username s) = Resolves (Some rows) None"
    and "getUserGameCollection be2 (username s) = Resolves gameCollection collectionError"
    and "collectionError \<noteq> None \<or> gameCollection = None"
    and "rpc_get_user_game_collection_safe be2 (username s) = Resolves (Some items) None"
    and "set (map card_id items) = set (map card_id rows)"
  shows "fst (openBoosterPack be2 s) = fst (openBoosterPack be1 s)"
proof -
  have m: "fst (merge_collection_status be2 cards t) = fst (merge_collection_status be1 cards t)"
    if "username t = username s" for cards t
    using assms that with_status_cong [OF assms(6), of cards]
    by (auto simp: merge_collection_status_def split: option.splits)
  show ?thesis
    using assms(1) m
    by (auto simp: openBoosterPack_def split_beta split: reply.splits option.splits)
qed

theorem fallback_same_as_primary_witness:
  "fst (openBoosterPack scenario_backend_fallback scenario_state) =
     fst (openBoosterPack scenario_backend scenario_state) \<and>
   map owned (boosterCards (fst (openBoosterPack scenario_backend_fallback scenario_state))) =
     [True, False, True]"
proof -
  have c: "from_select scenario_backend_fallback cards_query =
             from_select scenario_backend cards_query"
    by (simp add: scenario_backend_fallback_def scenario_backend_def)
  have g1: "getUserGameCollection scenario_backend (username scenario_state) =
              Resolves (Some [scenario_row ''u1'' ''c1'', scenario_row ''u1'' ''c3'']) None"
    by (simp add: scenario_backend_def scenario_state_def)
  have g2: "getUserGameCollection scenario_backend_fallback (username scenario_state) =
              Resolves None (Some (BackendError ''permission denied''))"
    by (simp add: scenario_backend_fallback_def)
  have n: "Some (BackendError ''permission denied'') \<noteq> None \<or>
           (None :: game_collection_row list option) = None"
    by simp
  have r: "rpc_get_user_game_collection_safe scenario_backend_fallback (username scenario_state) =
             Resolves (Some [\<lparr>card_id = ''c3''\<rparr>, \<lparr>card_id = ''c1''\<rparr>]) None"
    by (simp add: scenario_backend_fallback_def)
  have e: "set (map card_id [\<lparr>card_id = ''c3''\<rparr>, \<lparr>card_id = ''c1''\<rparr>]) =
           set (map card_id [scenario_row ''u1'' ''c1'', scenario_row ''u1'' ''c3''])"
    by (auto simp: scenario_row_def)
  have o: "map owned (boosterCards (fst (openBoosterPack scenario_backend scenario_state))) =
             [True, False, True]"
    by (simp add: openBoosterPack_def merge_collection_status_def scenario_backend_def
        scenario_state_def offline_def scenario_cards_def owned_with_status
        scenario_card_def scenario_row_def)
  show ?thesis
    using fallback_same_as_primary [OF c g1 g2 n r e] o by simp
qed

text \<open>
  C4 (the merger). The user is logged in, the cards \<open>randomCards\<close> have arrived and the
  game collection query returns \<open>rows\<close>. The cards of the pack are then \<open>randomCards\<close>:
  as many, in the same order, every field of \<open>card\<close> as it was; and a card is
  \<open>owned\<close> exactly when its id is the \<open>card_id\<close> of one of the rows. For the cards
  \<^verbatim>\<open>c1, c2, c3\<close> of user \<^verbatim>\<open>u1\<close>, who owns \<^verbatim>\<open>c1\<close> and \<^verbatim>\<open>c3\<close>, the flags are
  true, false, true.
\<close>

theorem merger_annotates:
  assumes "isLoggedIn s"
    and "from_select be cards_query = Resolves (Some randomCards) None"
    and "getUserGameCollection be (username s) = Resolves (Some rows) None"
  shows "length (boosterCards (fst (openBoosterPack be s))) = length randomCards \<and>
         map card.truncate (boosterCards (fst (openBoosterPack be s))) = randomCards \<and>
         map owned (boosterCards (fst (openBoosterPack be s))) =
           map (\<lambda>c. id' c \<in> card_id ` set rows) randomCards"
proof -
  have "boosterCards (fst (openBoosterPack be s)) = with_status (map card_id rows) randomCards"
    using assms by (simp add: openBoosterPack_def merge_collection_status_def)
  then show ?thesis
    using truncate_with_status [of "map card_id rows" randomCards]
      owned_with_status [of "map card_id rows" randomCards]
    by (simp add: with_status_def)
qed

theorem merger_annotates_witness:
  "isLoggedIn scenario_state \<and>
   map card.truncate (boosterCards (fst (openBoosterPack scenario_backend scenario_state))) =
     [scenario_card ''c1'', scenario_card ''c2'', scenario_card ''c3''] \<and>
   map owned (boosterCards (fst (openBoosterPack scenario_backend scenario_state))) =
     [True, False, True]"
proof -
  have l: "isLoggedIn scenario_state"
    by (simp add: scenario_state_def)
  have c: "from_select scenario_backend cards_query =
             Resolves (Some [scenario_card ''c1'', scenario_card ''c2'', scenario_card ''c3'']) None"
    by (simp add: scenario_backend_def scenario_cards_def)
  have g: "getUserGameCollection scenario_backend (username scenario_state) =
             Resolves (Some [scenario_row ''u1'' ''c1'', scenario_row ''u1'' ''c3'']) None"
    by (simp add: scenario_backend_def scenario_state_def)
  show ?thesis
    using l merger_annotates [OF l c g]
    by (simp add: scenario_card_def scenario_row_def)
qed

text \<open>
  C5 (a failed add changes nothing). The user is logged in. When neither the insert nor
  the remote procedure succeeds (each resolves with an error, or rejects),
  \<open>addToGameCollection\<close> leaves every state cell as it was, the owned flags and the
  count among them, and shows one notification, the failure. So a page that differs
  after the call has seen one of the two calls succeed.
\<close>

theorem add_failure_leaves_state:
  assumes "isLoggedIn s"
    and "\<not> resolves_without_error (addCardToGameCollection be (username s) cardId)"
    and "\<not> resolves_without_error (rpc_add_card_to_game_collection_safe be (username s) cardId)"
  shows "fst (addToGameCollection be cardId s) = s \<and>
         filter is_toast (snd (addToGameCollection be cardId s)) =
           [ToastError ''Failed to add card to collection'']"
  using assms
  by (auto simp: addToGameCollection_def resolves_without_error_def is_toast_def
      split: reply.splits option.splits)

theorem add_failure_leaves_state_witness:
  "isLoggedIn scenario_state_c1_owned \<and>
   fst (addToGameCollection scenario_backend_no_insert ''c2'' scenario_state_c1_owned) =
     scenario_state_c1_owned \<and>
   filter is_toast
     (snd (addToGameCollection scenario_backend_no_insert ''c2'' scenario_state_c1_owned)) =
     [ToastError ''Failed to add card to collection'']"
proof -
  have l: "isLoggedIn scenario_state_c1_owned"
    by (simp add: scenario_state_c1_owned_def scenario_state_def)
  have p: "\<not> resolves_without_error
             (addCardToGameCollection scenario_backend_no_insert
                (username scenario_state_c1_owned) ''c2'')"
    by (simp add: scenario_backend_no_insert_def resolves_without_error_def)
  have r: "\<not> resolves_without_error
             (rpc_add_card_to_game_collection_safe scenario_backend_no_insert
                (username scenario_state_c1_owned) ''c2'')"
    by (simp add: scenario_backend_no_insert_def resolves_without_error_def)
  show ?thesis
    using l add_failure_leaves_state [OF l p r] by simp
qed

text \<open>
  C6 (logged out). A logged-out call of \<open>openBoosterPack\<close> opens the authentication
  prompt and does nothing else: whatever the backend would answer, no other state cell
  changes and nothing is requested from the backend, neither the cards, nor the
  collection, nor the remote procedure.
\<close>

theorem openBoosterPack_logged_out:
  assumes "\<not> isLoggedIn s"
  shows "fst (openBoosterPack be s) = s\<lparr>showAuthModal := True\<rparr> \<and>
         snd (openBoosterPack be s) = [] \<and>
         filter is_request (snd (openBoosterPack be s)) = []"
  using assms by (simp add: openBoosterPack_def)

theorem openBoosterPack_logged_out_witness:
  "\<not> isLoggedIn (scenario_state\<lparr>isLoggedIn := False\<rparr>) \<and>
   fst (openBoosterPack scenario_backend (scenario_state\<lparr>isLoggedIn := False\<rparr>)) =
     scenario_state\<lparr>isLoggedIn := False, showAuthModal := True\<rparr> \<and>
   snd (openBoosterPack scenario_backend (scenario_state\<lparr>isLoggedIn := False\<rparr>)) = []"
proof -
  have l: "\<not> isLoggedIn (scenario_state\<lparr>isLoggedIn := False\<rparr>)"
    by simp
  show ?thesis
    using l openBoosterPack_logged_out [OF l, of scenario_backend] by simp
qed

text \<open>
  C7 (the cards of a pack). Two databases hold the same rows of \<^verbatim>\<open>cards\<close>, stored in
  any order, with ids that are distinct and a collation that tells any two texts apart.
  Each answers the query that \<open>openBoosterPack\<close> builds. Then every pack that opens
  shows the same cards, whoever opens it and whatever the page held before: the first
  five rows of the table in ascending order of id. There are at most five of them
  (five, or the whole table when it is smaller), their ids ascend, they are rows of the
  table, and a row that is left out has an id no smaller than any id shown.
\<close>

theorem pack_selection_fixed:
  assumes "inj collate"
    and "distinct (map id' table1)" and "distinct (map id' table2)"
    and "set table1 = set table2"
    and "from_select be1 = select_rows collate table1"
    and "from_select be2 = select_rows collate table2"
    and "\<not> isOpened s1" and "\<not> isOpened s2"
    and "isOpened (fst (openBoosterPack be1 s1))" and "isOpened (fst (openBoosterPack be2 s2))"
  shows "map card.truncate (boosterCards (fst (openBoosterPack be1 s1))) =
           map card.truncate (boosterCards (fst (openBoosterPack be2 s2))) \<and>
         map card.truncate (boosterCards (fst (openBoosterPack be1 s1))) =
           take 5 (sort_key (collate \<circ> id') table1) \<and>
         length (boosterCards (fst (openBoosterPack be1 s1))) = min 5 (length table1) \<and>
         sorted (map (collate \<circ> id') (boosterCards (fst (openBoosterPack be1 s1)))) \<and>
         set (map card.truncate (boosterCards (fst (openBoosterPack be1 s1)))) \<subseteq> set table1 \<and>
         (\<forall>c \<in> set table1 - set (map card.truncate (boosterCards (fst (openBoosterPack be1 s1)))).
            \<forall>r \<in> set (boosterCards (fst (openBoosterPack be1 s1))).
              collate (id' r) \<le> collate (id' c))"
proof -
  let ?f = "collate \<circ> id'"
  let ?out1 = "boosterCards (fst (openBoosterPack be1 s1))"
  let ?sel = "take 5 (sort_key ?f table1)"
  have q1: "from_select be1 cards_query = Resolves (Some ?sel) None"
    unfolding assms(5) by (rule select_rows_cards_query)
  have q2: "from_select be2 cards_query = Resolves (Some (take 5 (sort_key ?f table2))) None"
    unfolding assms(6) by (rule select_rows_cards_query)
  have 1: "map card.truncate ?out1 = ?sel"
    using assms(7) q1 assms(9) by (rule opened_pack_cards)
  have "map card.truncate (boosterCards (fst (openBoosterPack be2 s2))) =
          take 5 (sort_key ?f table2)"
    using assms(8) q2 assms(10) by (rule opened_pack_cards)
  moreover have "sort_key ?f table1 = sort_key ?f table2"
    using assms(4) distinct_collated [OF assms(1,2)] distinct_collated [OF assms(1,3)]
    by (rule sort_key_unique)
  ultimately have 2: "map card.truncate (boosterCards (fst (openBoosterPack be2 s2))) = ?sel"
    by simp
  have "length (map card.truncate ?out1) = min 5 (length table1)"
    unfolding 1 by (simp add: min.commute)
  then have 3: "length ?out1 = min 5 (length table1)"
    by simp
  have "map ?f ?out1 = map ?f (map card.truncate ?out1)"
    by (simp add: card.truncate_def)
  then have 4: "sorted (map ?f ?out1)"
    unfolding 1 using first_rows_sorted [of ?f 5 table1] by simp
  have 5: "set (map card.truncate ?out1) \<subseteq> set table1"
    unfolding 1 by (rule first_rows_subset)
  have 6: "collate (id' r) \<le> collate (id' c)"
    if c: "c \<in> set table1 - set (map card.truncate ?out1)" and r: "r \<in> set ?out1" for c r
  proof -
    have "card.truncate r \<in> set ?sel"
      using r 1 by (metis image_eqI set_map)
    moreover have "c \<in> set table1" and "c \<notin> set ?sel"
      using c 1 by simp_all
    ultimately have "?f (card.truncate r) \<le> ?f c"
      by (rule first_rows_least)
    then show ?thesis
      by (simp add: card.truncate_def)
  qed
  from 1 2 3 4 5 6 show ?thesis
    by simp
qed

theorem pack_selection_fixed_witness:
  "\<not> isOpened scenario_state \<and>
   isOpened (fst (openBoosterPack scenario_backend_table scenario_state)) \<and>
   isOpened (fst (openBoosterPack scenario_backend_table_reordered
     (scenario_state\<lparr>username := ''u2'', gameCollectionCount := 7\<rparr>))) \<and>
   map card.truncate (boosterCards (fst (openBoosterPack scenario_backend_table scenario_state))) =
     map card.truncate (boosterCards (fst (openBoosterPack scenario_backend_table_reordered
       (scenario_state\<lparr>username := ''u2'', gameCollectionCount := 7\<rparr>)))) \<and>
   map card.truncate (boosterCards (fst (openBoosterPack scenario_backend_table scenario_state))) =
     map scenario_card [''c1'', ''c2'', ''c3'', ''c4'', ''c5'']"
proof -
  let ?s2 = "scenario_state\<lparr>username := ''u2'', gameCollectionCount := 7\<rparr>"
  have i: "inj code_points"
    by (simp add: inj_def code_points_def)
  have d1: "distinct (map id' scenario_table)"
    by (simp add: scenario_table_def scenario_card_def)
  have d2: "distinct (map id' scenario_table_reordered)"
    by (simp add: scenario_table_reordered_def scenario_card_def)
  have e: "set scenario_table = set scenario_table_reordered"
    by (auto simp: scenario_table_def scenario_table_reordered_def)
  have q1: "from_select scenario_backend_table = select_rows code_points scenario_table"
    by (simp add: scenario_backend_table_def)
  have q2: "from_select scenario_backend_table_reordered =
              select_rows code_points scenario_table_reordered"
    by (simp add: scenario_backend_table_reordered_def)
  have c1: "\<not> isOpened scenario_state" and c2: "\<not> isOpened ?s2"
    by (simp_all add: scenario_state_def)
  have o1: "isOpened (fst (openBoosterPack scenario_backend_table scenario_state))"
    by (simp add: openBoosterPack_def merge_collection_status_def scenario_backend_table_def
        scenario_state_def offline_def select_rows_cards_query)
  have o2: "isOpened (fst (openBoosterPack scenario_backend_table_reordered ?s2))"
    by (simp add: openBoosterPack_def merge_collection_status_def
        scenario_backend_table_reordered_def scenario_state_def offline_def
        select_rows_cards_query)
  from pack_selection_fixed [OF i d1 d2 e q1 q2 c1 c2 o1 o2]
  have same: "map card.truncate (boosterCards (fst (openBoosterPack scenario_backend_table scenario_state))) =
                map card.truncate (boosterCards (fst (openBoosterPack scenario_backend_table_reordered ?s2)))"
    and first: "map card.truncate (boosterCards (fst (openBoosterPack scenario_backend_table scenario_state))) =
                  take 5 (sort_key (code_points \<circ> id') scenario_table)"
    by blast+
  from first have "map card.truncate (boosterCards (fst (openBoosterPack scenario_backend_table scenario_state))) =
                     map scenario_card [''c1'', ''c2'', ''c3'', ''c4'', ''c5'']"
    using scenario_table_selected by (simp only:)
  with c1 o1 o2 same show ?thesis
    by blast
qed

text \<open>
  C8 (not found). When a route parameter is missing, or empty, \<open>CardDetails\<close> renders the
  inline message that both ids are required. When both are there and the catalog has no
  record of the card, or none of the set, it renders the inline message that the card
  was not found. In neither case does it reach the full page, which reads the fields
  of the two records. For set \<^verbatim>\<open>base1\<close> and card \<^verbatim>\<open>base1-4\<close> of a catalog without
  records the message is the not-found one.
\<close>

theorem not_found_inline:
  "(setId = None \<or> setId = Some [] \<or> cardId = None \<or> cardId = Some [] \<longrightarrow>
      CardDetails cat setId cardId = Div ''Set ID and Card ID are required'') \<and>
   (sid \<noteq> [] \<and> cid \<noteq> [] \<and> (getCardDetails cat sid cid = None \<or> getSetDetails cat sid = None) \<longrightarrow>
      CardDetails cat (Some sid) (Some cid) = Div ''Card not found'')"
  by (auto simp: CardDetails_def split: option.splits)

theorem not_found_inline_witness:
  "CardDetails empty_catalog (Some ''base1'') (Some ''base1-4'') = Div ''Card not found'' \<and>
   CardDetails empty_catalog None (Some ''base1-4'') = Div ''Set ID and Card ID are required''"
proof -
  have m: "None = (None :: string option) \<or> None = Some [] \<or> Some ''base1-4'' = None \<or>
           Some ''base1-4'' = Some []"
    by simp
  have n: "''base1'' \<noteq> [] \<and> ''base1-4'' \<noteq> [] \<and>
           (getCardDetails empty_catalog ''base1'' ''base1-4'' = None \<or>
            getSetDetails empty_catalog ''base1'' = None)"
    by (simp add: empty_catalog_def)
  show ?thesis
    using m n not_found_inline [of None "Some ''base1-4''" empty_catalog "''base1''" "''base1-4''"]
    by blast
qed

text \<open>
  C9 (the count after a failed fetch). When neither the count query nor the remote
  procedure succeeds (each resolves with an error, or rejects),
  \<open>fetchGameCollectionCount\<close> leaves every state cell as it was, so the count keeps
  its value and is not set to zero, and it shows no notification.
\<close>

theorem count_kept_on_failure:
  assumes "\<not> resolves_without_error (getGameCollectionCount be userId)"
    and "\<not> resolves_without_error (rpc_get_game_collection_count_safe be userId)"
  shows "fst (fetchGameCollectionCount be userId s) = s \<and>
         filter is_toast (snd (fetchGameCollectionCount be userId s)) = []"
  using assms
  by (auto simp: fetchGameCollectionCount_def resolves_without_error_def is_toast_def
      split: reply.splits option.splits)

theorem count_kept_on_failure_witness:
  "gameCollectionCount (fst (fetchGameCollectionCount offline ''u1'' scenario_state_c1_owned)) = 1 \<and>
   filter is_toast (snd (fetchGameCollectionCount offline ''u1'' scenario_state_c1_owned)) = []"
proof -
  have p: "\<not> resolves_without_error (getGameCollectionCount offline ''u1'')"
    by (simp add: offline_def resolves_without_error_def)
  have r: "\<not> resolves_without_error (rpc_get_game_collection_count_safe offline ''u1'')"
    by (simp add: offline_def resolves_without_error_def)
  have "gameCollectionCount scenario_state_c1_owned = 1"
    by (simp add: scenario_state_c1_owned_def)
  then show ?thesis
    using count_kept_on_failure [OF p r, of scenario_state_c1_owned] by simp
qed

text \<open>
  C10 (the toggle of the details page). \<open>handleToggleOwned\<close> flips \<open>isOwned\<close>, for a
  logged-in and for a logged-out user alike; the login flag, the prompt flag and the
  user name stay as they were; nothing is requested from the backend; and a second
  toggle brings the page back to the state before the first.
\<close>

theorem toggle_is_local:
  "isOwned (fst (handleToggleOwned cardDetails s)) = (\<not> isOwned s) \<and>
   auth_state.truncate (fst (handleToggleOwned cardDetails s)) = auth_state.truncate s \<and>
   filter is_request (snd (handleToggleOwned cardDetails s)) = [] \<and>
   fst (handleToggleOwned cardDetails (fst (handleToggleOwned cardDetails s))) = s"
  by (simp add: handleToggleOwned_def is_request_def auth_state.truncate_def)

end
